theory Spec2Isabelle
  imports Main "HOL-Library.Sublist" "HOL-Library.Word"
begin

section \<open>Go library functions used by the package\<close>

text \<open>
  Go strings are byte sequences; they are modelled as \<^typ>\<open>string\<close>. The functions
  of \<^verbatim>\<open>strings\<close>, \<^verbatim>\<open>strconv\<close> and \<^verbatim>\<open>os\<close> that the package calls are
  written out for byte strings.
\<close>

definition HasPrefix :: "string \<Rightarrow> string \<Rightarrow> bool" where
  "HasPrefix s p = prefix p s"

definition TrimPrefix :: "string \<Rightarrow> string \<Rightarrow> string" where
  "TrimPrefix s p = (if HasPrefix s p then drop (length p) s else s)"

text \<open>
  \<^verbatim>\<open>strings.TrimSpace\<close> removes the leading and the trailing white space of a
  string read as UTF-8, white space being what \<^verbatim>\<open>unicode.IsSpace\<close> accepts:
  the six ASCII characters tab, line feed, vertical tab, form feed, carriage return
  and space, and the code points U+0085, U+00A0, U+1680, U+2000 to U+200A, U+2028,
  U+2029, U+202F, U+205F and U+3000. The rune at the start of a string is white
  space exactly when the string starts with the UTF-8 encoding of one of them, and
  the rune at its end exactly when the string ends with one (bytes that are not
  valid UTF-8 decode to the error rune, one byte wide, which is not white space).
  The encodings are listed; no one is a prefix or a suffix of another.
\<close>

definition unicodeSpaces :: "string list" where
  "unicodeSpaces =
     [[CHR 0x09], [CHR 0x0A], [CHR 0x0B], [CHR 0x0C], [CHR 0x0D], [CHR 0x20],
      [CHR 0xC2, CHR 0x85], [CHR 0xC2, CHR 0xA0],
      [CHR 0xE1, CHR 0x9A, CHR 0x80],
      [CHR 0xE2, CHR 0x80, CHR 0x80], [CHR 0xE2, CHR 0x80, CHR 0x81],
      [CHR 0xE2, CHR 0x80, CHR 0x82], [CHR 0xE2, CHR 0x80, CHR 0x83],
      [CHR 0xE2, CHR 0x80, CHR 0x84], [CHR 0xE2, CHR 0x80, CHR 0x85],
      [CHR 0xE2, CHR 0x80, CHR 0x86], [CHR 0xE2, CHR 0x80, CHR 0x87],
      [CHR 0xE2, CHR 0x80, CHR 0x88], [CHR 0xE2, CHR 0x80, CHR 0x89],
      [CHR 0xE2, CHR 0x80, CHR 0x8A],
      [CHR 0xE2, CHR 0x80, CHR 0xA8], [CHR 0xE2, CHR 0x80, CHR 0xA9],
      [CHR 0xE2, CHR 0x80, CHR 0xAF],
      [CHR 0xE2, CHR 0x81, CHR 0x9F],
      [CHR 0xE3, CHR 0x80, CHR 0x80]]"

text \<open>The width in bytes of the white space rune at the start, and at the end,
  of a string; 0 when the rune there is not white space or the string is empty.\<close>

definition leadingSpace :: "string \<Rightarrow> nat" where
  "leadingSpace s =
     (case find (\<lambda>e. prefix e s) unicodeSpaces of Some e \<Rightarrow> length e | None \<Rightarrow> 0)"

definition trailingSpace :: "string \<Rightarrow> nat" where
  "trailingSpace s =
     (case find (\<lambda>e. suffix e s) unicodeSpaces of Some e \<Rightarrow> length e | None \<Rightarrow> 0)"

lemma leadingSpace_le: "leadingSpace s \<le> length s"
  by (auto simp: leadingSpace_def find_Some_iff prefix_def split: option.splits)

lemma trailingSpace_le: "trailingSpace s \<le> length s"
  by (auto simp: trailingSpace_def find_Some_iff suffix_def split: option.splits)

function TrimLeftSpace :: "string \<Rightarrow> string" where
  "TrimLeftSpace s =
     (if leadingSpace s = 0 then s else TrimLeftSpace (drop (leadingSpace s) s))"
  by pat_completeness auto
termination
proof (relation "measure length")
  show "wf (measure length)"
    by simp
next
  fix s :: string
  assume "leadingSpace s \<noteq> 0"
  with leadingSpace_le [of s] show "(drop (leadingSpace s) s, s) \<in> measure length"
    by simp
qed

function TrimRightSpace :: "string \<Rightarrow> string" where
  "TrimRightSpace s =
     (if trailingSpace s = 0 then s else TrimRightSpace (take (length s - trailingSpace s) s))"
  by pat_completeness auto
termination
proof (relation "measure length")
  show "wf (measure length)"
    by simp
next
  fix s :: string
  assume "trailingSpace s \<noteq> 0"
  with trailingSpace_le [of s] show "(take (length s - trailingSpace s) s, s) \<in> measure length"
    by simp
qed

definition TrimSpace :: "string \<Rightarrow> string" where
  "TrimSpace s = TrimRightSpace (TrimLeftSpace s)"

text \<open>\<^verbatim>\<open>strings.Split(s, sep)\<close> for a one-byte separator: the pieces between the
  separators, \<^verbatim>\<open>[""]\<close> for the empty string.\<close>

fun Split :: "string \<Rightarrow> char \<Rightarrow> string list" where
  "Split [] sep = [[]]"
| "Split (c # cs) sep =
     (if c = sep then [] # Split cs sep
      else (case Split cs sep of p # ps \<Rightarrow> (c # p) # ps | [] \<Rightarrow> [[c]]))"

text \<open>\<^verbatim>\<open>strings.Contains(s, substr)\<close>.\<close>

fun Contains :: "string \<Rightarrow> string \<Rightarrow> bool" where
  "Contains [] sub = (sub = [])"
| "Contains (c # cs) sub = (prefix sub (c # cs) \<or> Contains cs sub)"

text \<open>The process environment: \<^verbatim>\<open>os.Getenv\<close> returns the empty string for a
  variable that is not set. \<^verbatim>\<open>godotenv.Load\<close> adds the variables of the
  \<^verbatim>\<open>.env\<close> file (an association list, empty when the file is missing) that the
  environment does not have yet; it never overrides one that exists.\<close>

type_synonym environ = "string \<rightharpoonup> string"

definition Getenv :: "environ \<Rightarrow> string \<Rightarrow> string" where
  "Getenv env k = (case env k of None \<Rightarrow> [] | Some v \<Rightarrow> v)"

definition godotenv_Load :: "(string \<times> string) list \<Rightarrow> environ \<Rightarrow> environ" where
  "godotenv_Load dotenv env = (\<lambda>k. case env k of Some v \<Rightarrow> Some v | None \<Rightarrow> map_of dotenv k)"

text \<open>\<^verbatim>\<open>strconv.Atoi\<close> on a 64-bit platform: an optional sign and one or more
  decimal digits, within the range of \<^verbatim>\<open>int\<close>; anything else is an error
  (\<open>None\<close>).\<close>

definition isDigit :: "char \<Rightarrow> bool" where
  "isDigit c = (48 \<le> (of_char c :: nat) \<and> (of_char c :: nat) \<le> 57)"

definition digitsVal :: "string \<Rightarrow> int" where
  "digitsVal ds = foldl (\<lambda>n c. n * 10 + ((of_char c :: int) - 48)) 0 ds"

definition Atoi :: "string \<Rightarrow> int option" where
  "Atoi s =
     (let neg = (case s of c # r \<Rightarrow> c = CHR ''-'' | [] \<Rightarrow> False);
          ds = (case s of c # r \<Rightarrow> if c = CHR ''-'' \<or> c = CHR ''+'' then r else s | [] \<Rightarrow> [])
      in if ds = [] \<or> \<not> list_all isDigit ds then None
         else (let n = (if neg then - digitsVal ds else digitsVal ds)
               in if - (2 ^ 63) \<le> n \<and> n < 2 ^ 63 then Some n else None))"

text \<open>\<^verbatim>\<open>strconv.ParseBool\<close>.\<close>

definition ParseBool :: "string \<Rightarrow> bool option" where
  "ParseBool str =
     (if str \<in> set [''1'', ''t'', ''T'', ''TRUE'', ''true'', ''True''] then Some True
      else if str \<in> set [''0'', ''f'', ''F'', ''FALSE'', ''false'', ''False''] then Some False
      else None)"

section \<open>The data model of the package\<close>

datatype StatusCode = StatusPlaying | StatusStopped | StatusError | StatusPaused

datatype StreamControl = StartStream | StopStream | PauseStream | ResumeStream

record MjpegOpts =
  URL :: string
  AutoStopTimer :: int
  Resize :: bool
  Width :: int
  Height :: int
  EnableLog :: bool

subsection \<open>loadEnvOverrides\<close>

definition loadEnvOverrides :: "environ \<Rightarrow> MjpegOpts \<Rightarrow> MjpegOpts" where
  "loadEnvOverrides env opts =
     (let url = Getenv env ''MJPEG_URL'';
          opts = (if url \<noteq> [] then opts\<lparr>URL := url\<rparr> else opts);
          autoStopTimer = Getenv env ''MJPEG_AUTOSTOP_TIMER'';
          opts = (if autoStopTimer \<noteq> [] then
                    (case Atoi autoStopTimer of Some val \<Rightarrow> opts\<lparr>AutoStopTimer := val\<rparr>
                     | None \<Rightarrow> opts)
                  else opts);
          resize = Getenv env ''MJPEG_RESIZE'';
          opts = (if resize \<noteq> [] then
                    (case ParseBool resize of Some val \<Rightarrow> opts\<lparr>Resize := val\<rparr>
                     | None \<Rightarrow> opts)
                  else opts);
          width = Getenv env ''MJPEG_WIDTH'';
          opts = (if width \<noteq> [] then
                    (case Atoi width of Some val \<Rightarrow> opts\<lparr>Width := val\<rparr> | None \<Rightarrow> opts)
                  else opts);
          height = Getenv env ''MJPEG_HEIGHT'';
          opts = (if height \<noteq> [] then
                    (case Atoi height of Some val \<Rightarrow> opts\<lparr>Height := val\<rparr> | None \<Rightarrow> opts)
                  else opts);
          enableLog = Getenv env ''MJPEG_ENABLE_LOG'';
          opts = (if enableLog \<noteq> [] then
                    (case ParseBool enableLog of Some val \<Rightarrow> opts\<lparr>EnableLog := val\<rparr>
                     | None \<Rightarrow> opts)
                  else opts)
      in opts)"

subsection \<open>parseContentTypeAndBoundary\<close>

text \<open>The loop over the parts of the header value: the first part that, trimmed,
  starts with \<^verbatim>\<open>boundary=\<close> decides; the empty string when there is none.\<close>

fun findBoundary :: "string list \<Rightarrow> string" where
  "findBoundary [] = []"
| "findBoundary (part # parts) =
     (let part = TrimSpace part
      in if HasPrefix part ''boundary='' then ''--'' @ TrimPrefix part ''boundary=''
         else findBoundary parts)"

text \<open>The second component is the error the function returns: it is always
  \<^verbatim>\<open>nil\<close>.\<close>

definition parseContentTypeAndBoundary :: "string \<Rightarrow> string \<times> string option" where
  "parseContentTypeAndBoundary contentType =
     (let boundary = (if HasPrefix contentType ''multipart/x-mixed-replace''
                      then findBoundary (Split contentType CHR '';'') else []);
          boundary = (if boundary = [] then ''--frame'' else boundary)
      in (boundary, None))"

subsection \<open>Outcomes, channels and timers\<close>

text \<open>The outcome of running a piece of Go code: it returns, it blocks (for a
  step of a goroutine: the step cannot be taken now), or it panics.\<close>

datatype 'a go = Ret 'a | Blocks | Panic

text \<open>A buffered channel: its queue, its capacity, and whether it was closed.\<close>

record 'a chan =
  buf :: "'a list"
  cap :: nat
  closed :: bool

definition make_chan :: "nat \<Rightarrow> 'a chan" where
  "make_chan n = \<lparr>buf = [], cap = n, closed = False\<rparr>"

text \<open>The send statement \<^verbatim>\<open>ch <- v\<close> on a buffered channel, with no receiver
  waiting: it panics on a closed channel and blocks on a full one.\<close>

definition chan_send :: "'a chan \<Rightarrow> 'a \<Rightarrow> 'a chan go" where
  "chan_send ch v =
     (if closed ch then Panic
      else if length (buf ch) < cap ch then Ret (ch\<lparr>buf := buf ch @ [v]\<rparr>)
      else Blocks)"

text \<open>\<^verbatim>\<open>close(ch)\<close> panics on a channel that is closed already.\<close>

definition chan_close :: "'a chan \<Rightarrow> 'a chan go" where
  "chan_close ch = (if closed ch then Panic else Ret (ch\<lparr>closed := True\<rparr>))"

text \<open>The receive \<^verbatim>\<open>v, ok := <-ch\<close>: the oldest queued value; on an empty
  channel, \<open>None\<close> (not ok) when it is closed, and blocking otherwise.\<close>

definition chan_recv :: "'a chan \<Rightarrow> ('a option \<times> 'a chan) go" where
  "chan_recv ch =
     (case buf ch of
        v # vs \<Rightarrow> Ret (Some v, ch\<lparr>buf := vs\<rparr>)
      | [] \<Rightarrow> if closed ch then Ret (None, ch) else Blocks)"

text \<open>A \<^verbatim>\<open>time.Timer\<close> made by \<^verbatim>\<open>time.AfterFunc\<close>: its duration, a
  \<^verbatim>\<open>time.Duration\<close> (64-bit nanoseconds), and whether \<^verbatim>\<open>Stop\<close> was called on
  it. Every timer of the package has the same callback, \<^verbatim>\<open>m.Stop()\<close>. The model
  has no clock: it records which timers are armed, not when they fire.\<close>

record Timer =
  duration :: "64 word"
  stopped :: bool

definition Second :: "64 word" where
  "Second = 1000000000"

definition Duration :: "int \<Rightarrow> 64 word" where
  "Duration n = word_of_int n"

subsection \<open>The Mjpeg struct\<close>

text \<open>
  The fields of the struct that the code reads or writes, followed by the heap
  objects its pointer fields refer to: the image channels made by \<^verbatim>\<open>Start\<close> and
  the timers made by \<^verbatim>\<open>time.AfterFunc\<close>, each a store from addresses to objects
  with the next free address. \<^verbatim>\<open>ImageStream\<close> and \<^verbatim>\<open>timer\<close> hold an address
  or \<^verbatim>\<open>nil\<close>. \<^verbatim>\<open>statusChannel\<close> (capacity 1, never closed by the package) is
  modelled by its queue; \<^verbatim>\<open>wg\<close> by the counter of the wait group. The channel
  \<^verbatim>\<open>internalCH\<close> is unbuffered and holds no data: the goroutines blocked on it
  are part of the system state further down. \<open>logging\<close> is the field
  \<^verbatim>\<open>EnableLog\<close> of the struct.
\<close>

record 'img Mjpeg =
  opts :: MjpegOpts
  statusChannel :: "StatusCode list"
  statusCode :: StatusCode
  ImageStream :: "nat option"
  stopDecodeCh :: "unit chan"
  wg :: int
  logging :: bool
  timer :: "nat option"
  chans :: "nat \<Rightarrow> 'img chan"
  next_chan :: nat
  timers :: "nat \<Rightarrow> Timer"
  next_timer :: nat

definition setStatusCode :: "StatusCode \<Rightarrow> 'img Mjpeg \<Rightarrow> 'img Mjpeg" where
  "setStatusCode s m =
     (let m = m\<lparr>statusCode := s\<rparr>
      in if length (statusChannel m) < 1
         then m\<lparr>statusChannel := statusChannel m @ [statusCode m]\<rparr>
         else m)"

definition init :: "'img Mjpeg \<Rightarrow> 'img Mjpeg" where
  "init m = setStatusCode StatusStopped (m\<lparr>statusChannel := []\<rparr>)"

text \<open>\<^verbatim>\<open>NewMjpeg\<close>: the fields not named in the composite literal have their zero
  values (\<^verbatim>\<open>StatusPlaying\<close> is the zero \<^verbatim>\<open>StatusCode\<close>).\<close>

definition NewMjpeg :: "(string \<times> string) list \<Rightarrow> environ \<Rightarrow> MjpegOpts \<Rightarrow> 'img Mjpeg" where
  "NewMjpeg dotenv env options =
     (let env = godotenv_Load dotenv env;
          options = loadEnvOverrides env options
      in init \<lparr>opts = options, statusChannel = [], statusCode = StatusPlaying,
               ImageStream = None, stopDecodeCh = make_chan 0, wg = 0,
               logging = EnableLog options, timer = None,
               chans = (\<lambda>a. make_chan 0), next_chan = 0,
               timers = (\<lambda>a. \<lparr>duration = 0, stopped = True\<rparr>), next_timer = 0\<rparr>)"

subsection \<open>The watchdog timer\<close>

text \<open>\<^verbatim>\<open>m.timer = time.AfterFunc(d, func() { m.Stop() })\<close>: a new timer object,
  armed, and its address stored in the field. The timer the field held before is
  not touched.\<close>

definition AfterFunc :: "64 word \<Rightarrow> 'img Mjpeg \<Rightarrow> 'img Mjpeg" where
  "AfterFunc d m =
     m\<lparr>timers := (timers m)(next_timer m := \<lparr>duration = d, stopped = False\<rparr>),
       next_timer := next_timer m + 1,
       timer := Some (next_timer m)\<rparr>"

definition timer_Stop :: "nat \<Rightarrow> 'img Mjpeg \<Rightarrow> 'img Mjpeg" where
  "timer_Stop t m = m\<lparr>timers := (timers m)(t := (timers m t)\<lparr>stopped := True\<rparr>)\<rparr>"

definition ResetTimer :: "int \<Rightarrow> 'img Mjpeg \<Rightarrow> 'img Mjpeg" where
  "ResetTimer d m =
     (let m = (case timer m of Some t \<Rightarrow> timer_Stop t m | None \<Rightarrow> m);
          m = (if d > 0 then m\<lparr>opts := (opts m)\<lparr>AutoStopTimer := d\<rparr>\<rparr> else m)
      in AfterFunc (Duration (AutoStopTimer (opts m)) * Second) m)"

text \<open>The timers that are armed: made and not stopped.\<close>

definition armed :: "'img Mjpeg \<Rightarrow> nat \<Rightarrow> bool" where
  "armed m t = (t < next_timer m \<and> \<not> stopped (timers m t))"

subsection \<open>The byte stream\<close>

text \<open>
  The \<^verbatim>\<open>bufio.Reader\<close> over the response body: the bytes that are still to come
  and the error the transport reports once they are used up (\<^verbatim>\<open>io.EOF\<close> for a
  body that ends, another error for a connection that fails). Reading never waits
  in the model.
\<close>

datatype io_error = EOF | ErrUnexpectedEOF | ErrTransport

record bufio_Reader =
  rest :: string
  final :: io_error

text \<open>\<^verbatim>\<open>reader.ReadString('\n')\<close>: the bytes up to and including the first line
  feed; when there is none, all the bytes left together with the error.\<close>

definition ReadString :: "bufio_Reader \<Rightarrow> string \<times> io_error option \<times> bufio_Reader" where
  "ReadString rd =
     (let line = takeWhile (\<lambda>c. c \<noteq> CHR 0x0A) (rest rd)
      in case dropWhile (\<lambda>c. c \<noteq> CHR 0x0A) (rest rd) of
           [] \<Rightarrow> (line, Some (final rd), rd\<lparr>rest := []\<rparr>)
         | nl # after \<Rightarrow> (line @ [nl], None, rd\<lparr>rest := after\<rparr>))"

text \<open>\<^verbatim>\<open>io.ReadFull(reader, buf)\<close> for a buffer of \<open>n\<close> bytes: exactly \<open>n\<close> bytes,
  or an error: the transport's own when no byte could be read, and
  \<^verbatim>\<open>io.ErrUnexpectedEOF\<close> when the body ended after some.\<close>

definition ReadFull :: "bufio_Reader \<Rightarrow> nat \<Rightarrow> string \<times> io_error option \<times> bufio_Reader" where
  "ReadFull rd n =
     (if n \<le> length (rest rd)
      then (take n (rest rd), None, rd\<lparr>rest := drop n (rest rd)\<rparr>)
      else (rest rd,
            Some (if rest rd = [] then final rd
                  else if final rd = EOF then ErrUnexpectedEOF else final rd),
            rd\<lparr>rest := []\<rparr>))"

subsection \<open>readImageHeaders\<close>

text \<open>
  The first argument stands for
  \<^verbatim>\<open>fmt.Sscanf(headerLine, "Content-Length: %d", &contentLength)\<close>: the number it
  stores, or \<open>None\<close> when it stores nothing and \<^verbatim>\<open>contentLength\<close> keeps its
  value. The loop ends at the first line that is blank after trimming, or with the
  error of the read that found no line feed.
\<close>

lemma dropWhile_Cons_shorter: "dropWhile P xs = y # ys \<Longrightarrow> length ys < length xs"
proof -
  assume a: "dropWhile P xs = y # ys"
  have "length (dropWhile P xs) \<le> length xs"
    by (rule length_dropWhile_le)
  with a show ?thesis
    by simp
qed

function readImageHeaders_loop ::
  "(string \<Rightarrow> int option) \<Rightarrow> int \<Rightarrow> bufio_Reader \<Rightarrow> (io_error + int) \<times> bufio_Reader" where
  "readImageHeaders_loop Sscanf contentLength rd =
     (case ReadString rd of
        (headerLine, Some err, rd') \<Rightarrow> (Inl err, rd')
      | (headerLine, None, rd') \<Rightarrow>
          if TrimSpace headerLine = [] then (Inr contentLength, rd')
          else readImageHeaders_loop Sscanf
                 (if HasPrefix headerLine ''Content-Length:''
                  then (case Sscanf headerLine of Some n \<Rightarrow> n | None \<Rightarrow> contentLength)
                  else contentLength)
                 rd')"
  by pat_completeness auto
termination
proof (relation "measure (\<lambda>(Sscanf, contentLength, rd). length (rest rd))")
  show "wf (measure (\<lambda>(Sscanf, contentLength, rd). length (rest rd)))"
    by simp
qed (auto simp: ReadString_def Let_def split: list.splits dest: dropWhile_Cons_shorter)

definition readImageHeaders ::
  "(string \<Rightarrow> int option) \<Rightarrow> bufio_Reader \<Rightarrow> (io_error + int) \<times> bufio_Reader" where
  "readImageHeaders Sscanf rd = readImageHeaders_loop Sscanf 0 rd"

subsection \<open>processAndSendImage\<close>

text \<open>
  \<open>Decode\<close> stands for \<^verbatim>\<open>jpeg.Decode\<close>. \<open>started\<close> is the variable
  \<^verbatim>\<open>timerStarted\<close> of \<^verbatim>\<open>decodeStream\<close>, passed by pointer: its new value is
  returned with the struct. The \<^verbatim>\<open>select\<close> statement has a \<^verbatim>\<open>default\<close> branch:
  when the send cannot proceed (the channel is full, or \<^verbatim>\<open>nil\<close>) the image is
  dropped.
\<close>

definition processAndSendImage ::
  "(string \<Rightarrow> 'img option) \<Rightarrow> string \<Rightarrow> bool \<Rightarrow> 'img Mjpeg \<Rightarrow> (bool \<times> 'img Mjpeg) go" where
  "processAndSendImage Decode jpegData started m =
     (if length jpegData = 0 then Ret (started, m)
      else case Decode jpegData of
        None \<Rightarrow> Ret (started, m)
      | Some img \<Rightarrow>
          (case ImageStream m of
             None \<Rightarrow> Ret (started, m)
           | Some c \<Rightarrow>
               (case chan_send (chans m c) img of
                  Ret ch \<Rightarrow>
                    (let m = m\<lparr>chans := (chans m)(c := ch)\<rparr>
                     in if \<not> started \<and> AutoStopTimer (opts m) > 0
                        then Ret (True, AfterFunc (Duration (AutoStopTimer (opts m)) * Second) m)
                        else Ret (started, m))
                | Blocks \<Rightarrow> Ret (started, m)
                | Panic \<Rightarrow> Panic)))"

subsection \<open>decodeStream\<close>

text \<open>The variables of one call of \<^verbatim>\<open>decodeStream\<close>.\<close>

record decodeStream_vars =
  reader :: bufio_Reader
  boundary :: string
  timerStarted :: bool

text \<open>
  \<^verbatim>\<open>make([]byte, contentLength)\<close> panics for a negative length and for one
  above the allocation limit of the runtime, \<open>2 ^ 48\<close> bytes on the 64-bit
  platforms; a buffer within the limit is taken to be allocated.
\<close>

definition maxAlloc :: int where
  "maxAlloc = 2 ^ 48"

text \<open>
  One pass through the \<^verbatim>\<open>default\<close> branch of the loop, after the test for
  \<^verbatim>\<open>StatusPaused\<close>: a line is read; when it contains the boundary, the headers,
  the payload and the image follow. Every path goes on with the loop.
\<close>

definition decodeStream_part ::
  "(string \<Rightarrow> int option) \<Rightarrow> (string \<Rightarrow> 'img option) \<Rightarrow> decodeStream_vars \<Rightarrow> 'img Mjpeg
     \<Rightarrow> (decodeStream_vars \<times> 'img Mjpeg) go" where
  "decodeStream_part Sscanf Decode v m =
     (case ReadString (reader v) of
        (line, Some err, rd) \<Rightarrow>
          if err = EOF then Ret (v\<lparr>reader := rd\<rparr>, m)
          else Ret (v\<lparr>reader := rd\<rparr>, setStatusCode StatusError m)
      | (line, None, rd) \<Rightarrow>
          if Contains line (boundary v) then
            (case readImageHeaders Sscanf rd of
               (Inl err, rd) \<Rightarrow> Ret (v\<lparr>reader := rd\<rparr>, setStatusCode StatusError m)
             | (Inr contentLength, rd) \<Rightarrow>
                 if contentLength < 0 \<or> contentLength > maxAlloc then Panic
                 else
                   (case ReadFull rd (nat contentLength) of
                      (jpegData, Some err, rd) \<Rightarrow>
                        Ret (v\<lparr>reader := rd\<rparr>, setStatusCode StatusError m)
                    | (jpegData, None, rd) \<Rightarrow>
                        (case processAndSendImage Decode jpegData (timerStarted v) m of
                           Ret (started, m) \<Rightarrow> Ret (v\<lparr>reader := rd, timerStarted := started\<rparr>, m)
                         | Blocks \<Rightarrow> Blocks
                         | Panic \<Rightarrow> Panic)))
          else Ret (v\<lparr>reader := rd\<rparr>, m))"

text \<open>The \<^verbatim>\<open>default\<close> branch: while the status is \<^verbatim>\<open>StatusPaused\<close> the loop
  sleeps and starts over.\<close>

definition decodeStream_default ::
  "(string \<Rightarrow> int option) \<Rightarrow> (string \<Rightarrow> 'img option) \<Rightarrow> decodeStream_vars \<Rightarrow> 'img Mjpeg
     \<Rightarrow> (decodeStream_vars \<times> 'img Mjpeg) go" where
  "decodeStream_default Sscanf Decode v m =
     (if statusCode m = StatusPaused then Ret (v, m)
      else decodeStream_part Sscanf Decode v m)"

text \<open>The branch \<^verbatim>\<open>case control := <-m.internalCH\<close>: only the pause and resume
  commands have a case.\<close>

definition decodeStream_control :: "StreamControl \<Rightarrow> 'img Mjpeg \<Rightarrow> 'img Mjpeg" where
  "decodeStream_control control m =
     (case control of
        PauseStream \<Rightarrow> setStatusCode StatusPaused m
      | ResumeStream \<Rightarrow> setStatusCode StatusPlaying m
      | _ \<Rightarrow> m)"

text \<open>The branch \<^verbatim>\<open>case <-m.stopDecodeCh\<close>: the function returns and the deferred
  \<^verbatim>\<open>m.wg.Done()\<close> runs, which panics on a negative counter.\<close>

definition decodeStream_return :: "'img Mjpeg \<Rightarrow> 'img Mjpeg go" where
  "decodeStream_return m = (if wg m - 1 < 0 then Panic else Ret (m\<lparr>wg := wg m - 1\<rparr>))"

section \<open>The goroutines of a session\<close>

text \<open>
  A session is the struct together with its goroutines: the calls of
  \<^verbatim>\<open>startFetching\<close> (one is spawned by every \<^verbatim>\<open>Start\<close>), the calls of
  \<^verbatim>\<open>decodeStream\<close>, and the goroutines blocked in a send on the unbuffered
  \<^verbatim>\<open>internalCH\<close> (the callers of \<^verbatim>\<open>Start\<close>, \<^verbatim>\<open>Stop\<close>, \<^verbatim>\<open>Pause\<close> and
  \<^verbatim>\<open>Resume\<close>): such a call returns when its command is received. The response
  bodies are a store of flags (closed or not); \<open>received\<close> are the frames the
  consumer has taken out of the image channels.
\<close>

datatype fetch_pc = AtSelect | InWait | Returned

record fetcher =
  res :: "nat option"
  pc :: fetch_pc

record decoder =
  vars :: decodeStream_vars
  running :: bool

record 'img system =
  mjpeg :: "'img Mjpeg"
  bodies :: "nat \<Rightarrow> bool"
  next_body :: nat
  fetchers :: "fetcher list"
  decoders :: "decoder list"
  senders :: "StreamControl list"
  received :: "'img list"

definition go_bind :: "'a go \<Rightarrow> ('a \<Rightarrow> 'b go) \<Rightarrow> 'b go" where
  "go_bind x f = (case x of Ret a \<Rightarrow> f a | Blocks \<Rightarrow> Blocks | Panic \<Rightarrow> Panic)"

definition remove_nth :: "nat \<Rightarrow> 'a list \<Rightarrow> 'a list" where
  "remove_nth j xs = take j xs @ drop (Suc j) xs"

definition new_session :: "'img Mjpeg \<Rightarrow> 'img system" where
  "new_session m = \<lparr>mjpeg = m, bodies = (\<lambda>b. False), next_body = 0, fetchers = [],
     decoders = [], senders = [], received = []\<rparr>"

subsection \<open>Start, Stop, Pause, Resume\<close>

text \<open>\<^verbatim>\<open>Start\<close> up to its send on \<^verbatim>\<open>internalCH\<close>: the image channel of the
  struct, if there is one, is closed; a new one of capacity 1 takes its place;
  a \<^verbatim>\<open>startFetching\<close> goroutine is spawned.\<close>

definition Start :: "'img system \<Rightarrow> 'img system go" where
  "Start s =
     go_bind
       (case ImageStream (mjpeg s) of
          Some c \<Rightarrow>
            go_bind (chan_close (chans (mjpeg s) c))
              (\<lambda>ch. Ret ((mjpeg s)\<lparr>chans := (chans (mjpeg s))(c := ch)\<rparr>))
        | None \<Rightarrow> Ret (mjpeg s))
       (\<lambda>m. Ret (s\<lparr>mjpeg := m\<lparr>chans := (chans m)(next_chan m := make_chan 1),
                                 ImageStream := Some (next_chan m),
                                 next_chan := next_chan m + 1\<rparr>,
                     fetchers := fetchers s @ [\<lparr>res = None, pc = AtSelect\<rparr>],
                     senders := senders s @ [StartStream]\<rparr>))"

definition Stop :: "'img system \<Rightarrow> 'img system" where
  "Stop s = s\<lparr>senders := senders s @ [StopStream]\<rparr>"

definition Pause :: "'img system \<Rightarrow> 'img system" where
  "Pause s = s\<lparr>senders := senders s @ [PauseStream]\<rparr>"

definition Resume :: "'img system \<Rightarrow> 'img system" where
  "Resume s = s\<lparr>senders := senders s @ [ResumeStream]\<rparr>"

subsection \<open>startFetching\<close>

text \<open>The deferred function of \<^verbatim>\<open>startFetching\<close>, for the value \<open>r\<close> of its
  variable \<^verbatim>\<open>res\<close>.\<close>

definition startFetching_deferred :: "nat option \<Rightarrow> 'img system \<Rightarrow> 'img system go" where
  "startFetching_deferred r s =
     (let s = (case r of Some b \<Rightarrow> s\<lparr>bodies := (bodies s)(b := True)\<rparr> | None \<Rightarrow> s)
      in case ImageStream (mjpeg s) of
           None \<Rightarrow> Panic
         | Some c \<Rightarrow>
             go_bind (chan_close (chans (mjpeg s) c))
               (\<lambda>ch. Ret (s\<lparr>mjpeg := setStatusCode StatusStopped
                                        ((mjpeg s)\<lparr>chans := (chans (mjpeg s))(c := ch)\<rparr>)\<rparr>)))"

text \<open>
  The body of the loop of goroutine \<open>i\<close> for a command it has received, up to the
  next point where it waits. \<open>get\<close> is the answer of \<^verbatim>\<open>http.Get\<close>, should it be
  called: \<open>None\<close> for an error, or the \<^verbatim>\<open>Content-Type\<close> header and the body.
\<close>

definition startFetching_control ::
  "nat \<Rightarrow> StreamControl \<Rightarrow> (string \<times> bufio_Reader) option \<Rightarrow> 'img system \<Rightarrow> 'img system go" where
  "startFetching_control i control get s =
     (case control of
        StartStream \<Rightarrow>
          if statusCode (mjpeg s) = StatusPlaying then Ret s
          else
            (let s = s\<lparr>mjpeg := setStatusCode StatusPlaying (mjpeg s)\<rparr>
             in case get of
                  None \<Rightarrow>
                    go_bind
                      (startFetching_deferred None
                         (s\<lparr>mjpeg := setStatusCode StatusError (mjpeg s)\<rparr>))
                      (\<lambda>s. Ret (s\<lparr>fetchers := (fetchers s)[i := \<lparr>res = None, pc = Returned\<rparr>]\<rparr>))
                | Some (contentType, body) \<Rightarrow>
                    (case parseContentTypeAndBoundary contentType of
                       (b, Some err) \<Rightarrow>
                         go_bind
                           (startFetching_deferred (Some (next_body s))
                              (s\<lparr>mjpeg := setStatusCode StatusError (mjpeg s),
                                 next_body := next_body s + 1\<rparr>))
                           (\<lambda>s. Ret (s\<lparr>fetchers :=
                                    (fetchers s)[i := \<lparr>res = Some (next_body s - 1), pc = Returned\<rparr>]\<rparr>))
                     | (b, None) \<Rightarrow>
                         Ret (s\<lparr>mjpeg := (mjpeg s)\<lparr>wg := wg (mjpeg s) + 1\<rparr>,
                                next_body := next_body s + 1,
                                fetchers := (fetchers s)[i := \<lparr>res = Some (next_body s), pc = AtSelect\<rparr>],
                                decoders := decoders s @
                                  [\<lparr>vars = \<lparr>reader = body, boundary = b, timerStarted = False\<rparr>,
                                    running = True\<rparr>]\<rparr>)))
      | StopStream \<Rightarrow>
          go_bind (chan_close (stopDecodeCh (mjpeg s)))
            (\<lambda>ch. Ret (s\<lparr>mjpeg := (mjpeg s)\<lparr>stopDecodeCh := ch\<rparr>,
                          fetchers := (fetchers s)[i := (fetchers s ! i)\<lparr>pc := InWait\<rparr>]\<rparr>))
      | PauseStream \<Rightarrow> Ret (s\<lparr>mjpeg := setStatusCode StatusPaused (mjpeg s)\<rparr>)
      | ResumeStream \<Rightarrow> Ret (s\<lparr>mjpeg := setStatusCode StatusPlaying (mjpeg s)\<rparr>))"

text \<open>\<^verbatim>\<open>m.wg.Wait()\<close> returns once the counter is zero; then \<^verbatim>\<open>startFetching\<close>
  returns and its deferred function runs.\<close>

definition startFetching_wait :: "nat \<Rightarrow> 'img system \<Rightarrow> 'img system go" where
  "startFetching_wait i s =
     (if wg (mjpeg s) = 0
      then go_bind (startFetching_deferred (res (fetchers s ! i)) s)
             (\<lambda>s. Ret (s\<lparr>fetchers := (fetchers s)[i := (fetchers s ! i)\<lparr>pc := Returned\<rparr>]\<rparr>))
      else Blocks)"

subsection \<open>The steps of a session\<close>

text \<open>
  A step is a call by the client or one piece of a goroutine, run without
  interruption. A step that cannot be taken in a state has the outcome
  \<open>Blocks\<close>. The \<^verbatim>\<open>select\<close> of \<^verbatim>\<open>decodeStream\<close> takes its \<^verbatim>\<open>default\<close>
  branch only when no other case is ready.
\<close>

datatype event =
    CallStart
  | CallStop
  | CallPause
  | CallResume
  | CallResetTimer int
  | FetcherRecv nat nat "(string \<times> bufio_Reader) option"
  | FetcherWait nat
  | DecoderStop nat
  | DecoderRecv nat nat
  | DecoderDefault nat
  | ConsumerRecv nat

fun fire ::
  "(string \<Rightarrow> int option) \<Rightarrow> (string \<Rightarrow> 'img option) \<Rightarrow> event \<Rightarrow> 'img system \<Rightarrow> 'img system go" where
  "fire Sscanf Decode CallStart s = Start s"
| "fire Sscanf Decode CallStop s = Ret (Stop s)"
| "fire Sscanf Decode CallPause s = Ret (Pause s)"
| "fire Sscanf Decode CallResume s = Ret (Resume s)"
| "fire Sscanf Decode (CallResetTimer d) s = Ret (s\<lparr>mjpeg := ResetTimer d (mjpeg s)\<rparr>)"
| "fire Sscanf Decode (FetcherRecv i j get) s =
     (if i < length (fetchers s) \<and> pc (fetchers s ! i) = AtSelect \<and> j < length (senders s)
      then startFetching_control i (senders s ! j) get (s\<lparr>senders := remove_nth j (senders s)\<rparr>)
      else Blocks)"
| "fire Sscanf Decode (FetcherWait i) s =
     (if i < length (fetchers s) \<and> pc (fetchers s ! i) = InWait
      then startFetching_wait i s
      else Blocks)"
| "fire Sscanf Decode (DecoderStop i) s =
     (if i < length (decoders s) \<and> running (decoders s ! i) \<and> closed (stopDecodeCh (mjpeg s))
      then go_bind (decodeStream_return (mjpeg s))
             (\<lambda>m. Ret (s\<lparr>mjpeg := m,
                         decoders := (decoders s)[i := (decoders s ! i)\<lparr>running := False\<rparr>]\<rparr>))
      else Blocks)"
| "fire Sscanf Decode (DecoderRecv i j) s =
     (if i < length (decoders s) \<and> running (decoders s ! i) \<and> j < length (senders s)
      then Ret (s\<lparr>mjpeg := decodeStream_control (senders s ! j) (mjpeg s),
                  senders := remove_nth j (senders s)\<rparr>)
      else Blocks)"
| "fire Sscanf Decode (DecoderDefault i) s =
     (if i < length (decoders s) \<and> running (decoders s ! i)
         \<and> \<not> closed (stopDecodeCh (mjpeg s)) \<and> senders s = []
      then go_bind (decodeStream_default Sscanf Decode (vars (decoders s ! i)) (mjpeg s))
             (\<lambda>(v, m). Ret (s\<lparr>mjpeg := m,
                              decoders := (decoders s)[i := (decoders s ! i)\<lparr>vars := v\<rparr>]\<rparr>))
      else Blocks)"
| "fire Sscanf Decode (ConsumerRecv c) s =
     go_bind (chan_recv (chans (mjpeg s) c))
       (\<lambda>(v, ch). case v of
            Some img \<Rightarrow> Ret (s\<lparr>mjpeg := (mjpeg s)\<lparr>chans := (chans (mjpeg s))(c := ch)\<rparr>,
                               received := received s @ [img]\<rparr>)
          | None \<Rightarrow> Ret s)"

fun run ::
  "(string \<Rightarrow> int option) \<Rightarrow> (string \<Rightarrow> 'img option) \<Rightarrow> event list \<Rightarrow> 'img system
     \<Rightarrow> 'img system go" where
  "run Sscanf Decode [] s = Ret s"
| "run Sscanf Decode (e # es) s = go_bind (fire Sscanf Decode e s) (run Sscanf Decode es)"

section \<open>Example inputs\<close>

text \<open>Concrete inputs at which the theorems below are instantiated.\<close>

definition example_opts :: MjpegOpts where
  "example_opts = \<lparr>URL = ''http://example.com/mjpeg_stream'', AutoStopTimer = 15,
     Resize = False, Width = 0, Height = 0, EnableLog = True\<rparr>"

definition example_env :: environ where
  "example_env = [''MJPEG_URL'' \<mapsto> ''http://cam/stream'', ''MJPEG_WIDTH'' \<mapsto> ''64O'',
     ''MJPEG_ENABLE_LOG'' \<mapsto> ''0'', ''MJPEG_HEIGHT'' \<mapsto> []]"

definition example_dotenv :: "(string \<times> string) list" where
  "example_dotenv = [(''MJPEG_AUTOSTOP_TIMER'', ''30''), (''MJPEG_URL'', ''http://other'')]"

definition example_session :: "string Mjpeg" where
  "example_session = NewMjpeg [] Map.empty example_opts"

text \<open>A scanner for the length header, exact on lines of the form
  \<^verbatim>\<open>Content-Length: <digits>\<close> followed by a carriage return and a line feed,
  and a decoder that accepts the payloads starting with the byte \<^verbatim>\<open>J\<close> (the
  image is the payload itself).\<close>

definition example_Sscanf :: "string \<Rightarrow> int option" where
  "example_Sscanf line =
     (if HasPrefix line ''Content-Length: '' then Atoi (TrimSpace (drop 16 line)) else None)"

definition example_Decode :: "string \<Rightarrow> string option" where
  "example_Decode jpegData = (if HasPrefix jpegData ''J'' then Some jpegData else None)"

definition CRLF :: string where
  "CRLF = [CHR 0x0D, CHR 0x0A]"

text \<open>A response body with two parts, whose payloads the example decoder accepts,
  and the header of the response.\<close>

definition example_part :: "string \<Rightarrow> string" where
  "example_part payload = ''--frame'' @ CRLF @ ''Content-Length: 2'' @ CRLF @ CRLF @ payload"

definition example_body :: bufio_Reader where
  "example_body = \<lparr>rest = example_part ''J1'' @ example_part ''J2'', final = EOF\<rparr>"

definition example_response :: "(string \<times> bufio_Reader) option" where
  "example_response = Some (''multipart/x-mixed-replace; boundary=frame'', example_body)"

text \<open>A run of the example session: it is started and answered with the example
  body, and the decode goroutine goes through two cycles while the consumer takes
  nothing.\<close>

definition example_events :: "event list" where
  "example_events =
     [CallStart, FetcherRecv 0 0 example_response, DecoderDefault 0, DecoderDefault 0]"

definition example_run :: "string system go" where
  "example_run = run example_Sscanf example_Decode example_events (new_session example_session)"



text \<open>A run of the example session in which \<^verbatim>\<open>ResetTimer\<close> is called before the
  stream is started and again after the first frame has been delivered.\<close>

definition example_reset_events :: "event list" where
  "example_reset_events =
     [CallResetTimer 5, CallStart, FetcherRecv 0 0 example_response, DecoderDefault 0,
      CallResetTimer 20]"

definition example_reset_run :: "string system go" where
  "example_reset_run =
     run example_Sscanf example_Decode example_reset_events (new_session example_session)"

text \<open>A body whose first part has a payload that the example decoder rejects, and
  the variables of a decode goroutine that reads it.\<close>

definition example_bad_body :: bufio_Reader where
  "example_bad_body = \<lparr>rest = example_part ''XX'' @ example_part ''J2'', final = EOF\<rparr>"

definition example_bad_vars :: decodeStream_vars where
  "example_bad_vars = \<lparr>reader = example_bad_body, boundary = ''--frame'', timerStarted = False\<rparr>"

definition example_playing :: "string Mjpeg" where
  "example_playing = setStatusCode StatusPlaying (example_session\<lparr>statusChannel := []\<rparr>)"

text \<open>The readers of the example after the boundary line, after the headers and
  after the payload of the first part, and a session whose only decode goroutine
  is about to read the body.\<close>

definition example_bad_rd1 :: bufio_Reader where
  "example_bad_rd1 =
     \<lparr>rest = ''Content-Length: 2'' @ CRLF @ CRLF @ ''XX'' @ example_part ''J2'', final = EOF\<rparr>"

definition example_bad_rd2 :: bufio_Reader where
  "example_bad_rd2 = \<lparr>rest = ''XX'' @ example_part ''J2'', final = EOF\<rparr>"

definition example_bad_rd3 :: bufio_Reader where
  "example_bad_rd3 = \<lparr>rest = example_part ''J2'', final = EOF\<rparr>"

definition example_bad_system :: "string system" where
  "example_bad_system =
     (new_session example_playing)\<lparr>decoders := [\<lparr>vars = example_bad_vars, running = True\<rparr>]\<rparr>"

definition example_bad_run :: "string system go" where
  "example_bad_run =
     run example_Sscanf example_Decode
       [CallStart,
        FetcherRecv 0 0 (Some (''multipart/x-mixed-replace; boundary=frame'', example_bad_body)),
        DecoderDefault 0, DecoderDefault 0]
       (new_session example_session)"








section \<open>Basic facts about outcomes and channels\<close>

declare TrimLeftSpace.simps [simp del] TrimRightSpace.simps [simp del]

lemma go_bind_Ret_iff: "go_bind x f = Ret y \<longleftrightarrow> (\<exists>a. x = Ret a \<and> f a = Ret y)"
  by (cases x) (simp_all add: go_bind_def)

lemma go_bind_Ret [simp]: "go_bind (Ret a) f = f a"
  by (simp add: go_bind_def)

lemma go_bind_Blocks [simp]: "go_bind Blocks f = Blocks"
  by (simp add: go_bind_def)

lemma go_bind_Panic [simp]: "go_bind Panic f = Panic"
  by (simp add: go_bind_def)

lemma chan_close_Ret_iff: "chan_close ch = Ret ch' \<longleftrightarrow> \<not> closed ch \<and> ch' = ch\<lparr>closed := True\<rparr>"
  by (auto simp: chan_close_def)

lemma chan_send_Ret_iff:
  "chan_send ch v = Ret ch'
     \<longleftrightarrow> \<not> closed ch \<and> length (buf ch) < cap ch \<and> ch' = ch\<lparr>buf := buf ch @ [v]\<rparr>"
  by (auto simp: chan_send_def)

lemma startFetching_deferred_Ret_iff:
  "startFetching_deferred r s = Ret s' \<longleftrightarrow>
     (\<exists>c. ImageStream (mjpeg s) = Some c \<and> \<not> closed (chans (mjpeg s) c)
        \<and> s' = s\<lparr>bodies := (case r of Some b \<Rightarrow> (bodies s)(b := True) | None \<Rightarrow> bodies s),
                  mjpeg := setStatusCode StatusStopped
                    ((mjpeg s)\<lparr>chans := (chans (mjpeg s))(c := (chans (mjpeg s) c)\<lparr>closed := True\<rparr>)\<rparr>)\<rparr>)"
  by (cases r; cases "ImageStream (mjpeg s)")
     (auto simp: startFetching_deferred_def go_bind_Ret_iff chan_close_Ret_iff)

lemma parseContentTypeAndBoundary_no_error:
  "parseContentTypeAndBoundary contentType = (b, e) \<Longrightarrow> e = None"
  by (simp add: parseContentTypeAndBoundary_def Let_def)

lemma ResetTimer_eq:
  "ResetTimer d m =
     m\<lparr>opts := (opts m)\<lparr>AutoStopTimer := (if d > 0 then d else AutoStopTimer (opts m))\<rparr>,
       timers := (case timer m of
                    Some t \<Rightarrow> (timers m)(t := (timers m t)\<lparr>stopped := True\<rparr>)
                  | None \<Rightarrow> timers m)
                 (next_timer m :=
                    \<lparr>duration = Duration (if d > 0 then d else AutoStopTimer (opts m)) * Second,
                      stopped = False\<rparr>),
       next_timer := next_timer m + 1,
       timer := Some (next_timer m)\<rparr>"
  by (cases "timer m") (simp_all add: ResetTimer_def AfterFunc_def timer_Stop_def Let_def)


section \<open>Invariants of a session\<close>

text \<open>Every image channel made so far has capacity 1 and holds at most one
  frame, and the field \<^verbatim>\<open>ImageStream\<close> refers to a channel that was made.\<close>

definition pipeline_inv :: "'img Mjpeg \<Rightarrow> bool" where
  "pipeline_inv m =
     ((\<forall>c. c < next_chan m \<longrightarrow> cap (chans m c) = 1 \<and> length (buf (chans m c)) \<le> 1)
      \<and> (\<forall>c. ImageStream m = Some c \<longrightarrow> c < next_chan m))"

text \<open>The counter of the wait group is the number of \<^verbatim>\<open>decodeStream\<close>
  goroutines that have not returned.\<close>

definition wg_inv :: "'img system \<Rightarrow> bool" where
  "wg_inv s = (wg (mjpeg s) = int (length (filter running (decoders s))))"

declare readImageHeaders_loop.simps [simp del]

lemma pipeline_inv_setStatusCode [simp]:
  "pipeline_inv (setStatusCode st m) = pipeline_inv m"
  by (simp add: pipeline_inv_def setStatusCode_def Let_def)

lemma pipeline_inv_ResetTimer [simp]: "pipeline_inv (ResetTimer d m) = pipeline_inv m"
  by (simp add: pipeline_inv_def ResetTimer_eq)

lemma pipeline_inv_AfterFunc [simp]: "pipeline_inv (AfterFunc d m) = pipeline_inv m"
  by (simp add: pipeline_inv_def AfterFunc_def)

lemma pipeline_inv_decodeStream_control [simp]:
  "pipeline_inv (decodeStream_control c m) = pipeline_inv m"
  by (cases c) (simp_all add: decodeStream_control_def)

lemma pipeline_inv_wg [simp]: "pipeline_inv (m\<lparr>wg := n\<rparr>) = pipeline_inv m"
  by (simp add: pipeline_inv_def)

lemma pipeline_inv_stopDecodeCh [simp]: "pipeline_inv (m\<lparr>stopDecodeCh := ch\<rparr>) = pipeline_inv m"
  by (simp add: pipeline_inv_def)

lemma pipeline_inv_close:
  "pipeline_inv m \<Longrightarrow> pipeline_inv (m\<lparr>chans := (chans m)(c := (chans m c)\<lparr>closed := True\<rparr>)\<rparr>)"
  by (simp add: pipeline_inv_def)

lemma pipeline_inv_NewMjpeg: "pipeline_inv (NewMjpeg dotenv env options)"
  by (simp add: NewMjpeg_def init_def Let_def) (simp add: pipeline_inv_def)

lemma processAndSendImage_cases:
  assumes "processAndSendImage Decode jpegData started m = Ret (started', m')"
  shows "(started' = started \<and> m' = m)
    \<or> (\<exists>c img. ImageStream m = Some c \<and> Decode jpegData = Some img \<and> jpegData \<noteq> []
          \<and> \<not> closed (chans m c) \<and> length (buf (chans m c)) < cap (chans m c)
          \<and> (let m1 = m\<lparr>chans := (chans m)(c := (chans m c)\<lparr>buf := buf (chans m c) @ [img]\<rparr>)\<rparr>
             in if \<not> started \<and> AutoStopTimer (opts m) > 0
                then started' \<and> m' = AfterFunc (Duration (AutoStopTimer (opts m)) * Second) m1
                else started' = started \<and> m' = m1))"
  using assms
  by (auto simp: processAndSendImage_def chan_send_Ret_iff Let_def
      split: if_splits option.splits go.splits)

lemma pipeline_inv_processAndSendImage:
  assumes "processAndSendImage Decode jpegData started m = Ret (started', m')"
    and "pipeline_inv m"
  shows "pipeline_inv m'"
proof -
  have "pipeline_inv (m\<lparr>chans := (chans m)(c := (chans m c)\<lparr>buf := buf (chans m c) @ [img]\<rparr>)\<rparr>)"
    if "ImageStream m = Some c" "length (buf (chans m c)) < cap (chans m c)" for c img
    using that assms(2) by (auto simp: pipeline_inv_def)
  with processAndSendImage_cases [OF assms(1)] assms(2) show ?thesis
    by (auto simp: Let_def split: if_splits)
qed

lemma decodeStream_default_cases:
  assumes "decodeStream_default Sscanf Decode v m = Ret (v', m')"
  shows "(timerStarted v' = timerStarted v \<and> boundary v' = boundary v
           \<and> (m' = m \<or> m' = setStatusCode StatusError m))
    \<or> (\<exists>jpegData. boundary v' = boundary v \<and> statusCode m \<noteq> StatusPaused
          \<and> processAndSendImage Decode jpegData (timerStarted v) m = Ret (timerStarted v', m'))"
  using assms
  by (auto simp: decodeStream_default_def decodeStream_part_def
      split: if_splits option.splits prod.splits sum.splits go.splits)

lemma pipeline_inv_decodeStream_default:
  assumes "decodeStream_default Sscanf Decode v m = Ret (v', m')" and "pipeline_inv m"
  shows "pipeline_inv m'"
  using decodeStream_default_cases [OF assms(1)] assms(2)
  by (auto dest: pipeline_inv_processAndSendImage)

lemma pipeline_inv_Start:
  assumes "Start s = Ret s'" and "pipeline_inv (mjpeg s)"
  shows "pipeline_inv (mjpeg s')"
  using assms
  by (cases "ImageStream (mjpeg s)")
     (auto simp: Start_def go_bind_Ret_iff chan_close_Ret_iff pipeline_inv_def make_chan_def
        less_Suc_eq)

lemma pipeline_inv_deferred:
  assumes "startFetching_deferred r s = Ret s'" and "pipeline_inv (mjpeg s)"
  shows "pipeline_inv (mjpeg s')"
  using assms by (auto simp: startFetching_deferred_Ret_iff pipeline_inv_close)

lemma pipeline_inv_startFetching_control:
  assumes "startFetching_control i control get s = Ret s'" and "pipeline_inv (mjpeg s)"
  shows "pipeline_inv (mjpeg s')"
proof (cases control)
  case StartStream
  show ?thesis
  proof (cases get)
    case None
    with StartStream assms show ?thesis
      by (auto simp: startFetching_control_def go_bind_Ret_iff Let_def
          dest!: pipeline_inv_deferred split: if_splits)
  next
    case (Some a)
    obtain ct body where a: "a = (ct, body)"
      by (cases a)
    obtain b where b: "parseContentTypeAndBoundary ct = (b, None)"
      using parseContentTypeAndBoundary_no_error [of ct]
      by (cases "parseContentTypeAndBoundary ct") auto
    from StartStream Some a b assms show ?thesis
      by (auto simp: startFetching_control_def Let_def split: if_splits)
  qed
next
  case StopStream
  with assms show ?thesis
    by (auto simp: startFetching_control_def go_bind_Ret_iff)
next
  case PauseStream
  with assms show ?thesis
    by (auto simp: startFetching_control_def)
next
  case ResumeStream
  with assms show ?thesis
    by (auto simp: startFetching_control_def)
qed

lemma pipeline_inv_recv:
  assumes "chan_recv (chans m c) = Ret (Some img, ch)" and "pipeline_inv m"
  shows "pipeline_inv (m\<lparr>chans := (chans m)(c := ch)\<rparr>)"
proof -
  from assms(1) obtain vs where vs: "buf (chans m c) = img # vs" "ch = (chans m c)\<lparr>buf := vs\<rparr>"
    by (auto simp: chan_recv_def split: list.splits if_splits)
  have "length vs \<le> 1" if "c < next_chan m"
    using that assms(2) vs(1) by (auto simp: pipeline_inv_def dest!: spec [of _ c])
  with assms(2) vs(2) show ?thesis
    by (auto simp: pipeline_inv_def)
qed

lemma pipeline_inv_fire:
  assumes "fire Sscanf Decode e s = Ret s'" and "pipeline_inv (mjpeg s)"
  shows "pipeline_inv (mjpeg s')"
proof (cases e)
  case CallStart
  with assms show ?thesis
    by (auto dest: pipeline_inv_Start)
next
  case (FetcherRecv i j get)
  with assms show ?thesis
    by (auto split: if_splits dest!: pipeline_inv_startFetching_control)
next
  case (FetcherWait i)
  with assms show ?thesis
    by (auto simp: startFetching_wait_def go_bind_Ret_iff split: if_splits
        dest!: pipeline_inv_deferred)
next
  case (DecoderStop i)
  with assms show ?thesis
    by (auto simp: go_bind_Ret_iff decodeStream_return_def split: if_splits)
next
  case (DecoderDefault i)
  with assms show ?thesis
    by (auto simp: go_bind_Ret_iff split: if_splits dest!: pipeline_inv_decodeStream_default)
next
  case (ConsumerRecv c)
  show ?thesis
  proof (cases "chan_recv (chans (mjpeg s) c)")
    case (Ret a)
    obtain v ch where a: "a = (v, ch)"
      by (cases a)
    show ?thesis
    proof (cases v)
      case None
      with assms ConsumerRecv Ret a show ?thesis
        by simp
    next
      case (Some img)
      with assms ConsumerRecv Ret a pipeline_inv_recv [of "mjpeg s" c img ch] show ?thesis
        by auto
    qed
  qed (use assms ConsumerRecv in auto)
qed (use assms in \<open>auto simp: Stop_def Pause_def Resume_def split: if_splits\<close>)

lemma pipeline_inv_run:
  "run Sscanf Decode evs s = Ret s' \<Longrightarrow> pipeline_inv (mjpeg s) \<Longrightarrow> pipeline_inv (mjpeg s')"
proof (induction evs arbitrary: s)
  case Nil
  then show ?case by simp
next
  case (Cons e evs)
  then show ?case
    by (auto simp: go_bind_Ret_iff dest: pipeline_inv_fire)
qed

section \<open>Reading from the stream\<close>

lemma ReadString_eof:
  assumes "dropWhile (\<lambda>c. c \<noteq> CHR 0x0A) (rest rd) = []"
  shows "ReadString rd
    = (takeWhile (\<lambda>c. c \<noteq> CHR 0x0A) (rest rd), Some (final rd), rd\<lparr>rest := []\<rparr>)"
  unfolding ReadString_def Let_def assms by (simp only: list.case)

lemma ReadString_line:
  assumes "dropWhile (\<lambda>c. c \<noteq> CHR 0x0A) (rest rd) = nl # after"
  shows "ReadString rd
    = (takeWhile (\<lambda>c. c \<noteq> CHR 0x0A) (rest rd) @ [nl], None, rd\<lparr>rest := after\<rparr>)"
  unfolding ReadString_def Let_def assms by (simp only: list.case)



lemma ReadString_consumes:
  "ReadString rd = (line, e, rd') \<Longrightarrow> rest rd = line @ rest rd'"
proof (cases "dropWhile (\<lambda>c. c \<noteq> CHR 0x0A) (rest rd)")
  case Nil
  assume "ReadString rd = (line, e, rd')"
  with ReadString_eof [OF Nil]
  have "rd' = rd\<lparr>rest := []\<rparr>" and l: "line = takeWhile (\<lambda>c. c \<noteq> CHR 0x0A) (rest rd)"
    by simp_all
  then have r: "rest rd' = []"
    by simp
  have "takeWhile (\<lambda>c. c \<noteq> CHR 0x0A) (rest rd) @ [] = rest rd"
    using takeWhile_dropWhile_id [of "\<lambda>c. c \<noteq> CHR 0x0A" "rest rd"] unfolding Nil .
  then show ?thesis
    unfolding l r by (rule sym)
next
  case (Cons nl after)
  assume "ReadString rd = (line, e, rd')"
  with ReadString_line [OF Cons]
  have "rd' = rd\<lparr>rest := after\<rparr>"
    and l: "line = takeWhile (\<lambda>c. c \<noteq> CHR 0x0A) (rest rd) @ [nl]"
    by simp_all
  then have r: "rest rd' = after"
    by simp
  have "takeWhile (\<lambda>c. c \<noteq> CHR 0x0A) (rest rd) @ nl # after = rest rd"
    using takeWhile_dropWhile_id [of "\<lambda>c. c \<noteq> CHR 0x0A" "rest rd"] unfolding Cons .
  then show ?thesis
    unfolding l r by simp
qed


lemma ReadFull_consumes:
  "ReadFull rd n = (jpegData, e, rd') \<Longrightarrow> rest rd = jpegData @ rest rd'"
proof (cases "n \<le> length (rest rd)")
  case True
  assume "ReadFull rd n = (jpegData, e, rd')"
  with True have "jpegData = take n (rest rd)" and "rd' = rd\<lparr>rest := drop n (rest rd)\<rparr>"
    by (simp_all add: ReadFull_def)
  then show ?thesis
    by simp
next
  case False
  assume "ReadFull rd n = (jpegData, e, rd')"
  with False have "jpegData = rest rd" and "rd' = rd\<lparr>rest := []\<rparr>"
    by (simp_all add: ReadFull_def)
  then show ?thesis
    by simp
qed

lemma readImageHeaders_loop_error_step:
  "ReadString rd = (headerLine, Some e, rd1)
   \<Longrightarrow> readImageHeaders_loop Sscanf n rd = (Inl e, rd1)"
  by (subst readImageHeaders_loop.simps) simp

lemma readImageHeaders_loop_blank_step:
  "ReadString rd = (headerLine, None, rd1) \<Longrightarrow> TrimSpace headerLine = []
   \<Longrightarrow> readImageHeaders_loop Sscanf n rd = (Inr n, rd1)"
  by (subst readImageHeaders_loop.simps) simp

lemma readImageHeaders_loop_header_step:
  "ReadString rd = (headerLine, None, rd1) \<Longrightarrow> TrimSpace headerLine \<noteq> []
   \<Longrightarrow> readImageHeaders_loop Sscanf n rd =
       readImageHeaders_loop Sscanf
         (if HasPrefix headerLine ''Content-Length:''
          then case Sscanf headerLine of None \<Rightarrow> n | Some k \<Rightarrow> k
          else n) rd1"
  by (subst readImageHeaders_loop.simps) simp


lemma readImageHeaders_loop_consumes:
  "readImageHeaders_loop Sscanf n rd = (r, rd') \<Longrightarrow> suffix (rest rd') (rest rd)"
proof (induction Sscanf n rd rule: readImageHeaders_loop.induct)
  case (1 Sscanf contentLength rd)
  obtain headerLine err rd1 where r: "ReadString rd = (headerLine, err, rd1)"
    by (cases "ReadString rd") auto
  have s1: "suffix (rest rd1) (rest rd)"
    using ReadString_consumes [OF r] by (simp add: suffix_def)
  show ?case
  proof (cases err)
    case None
    note r' = r [unfolded None]
    show ?thesis
    proof (cases "TrimSpace headerLine = []")
      case True
      with "1.prems" s1 readImageHeaders_loop_blank_step [OF r' True, of Sscanf contentLength]
      show ?thesis by simp
    next
      case False
      from "1.prems" readImageHeaders_loop_header_step [OF r' False, of Sscanf contentLength]
      have "readImageHeaders_loop Sscanf
         (if HasPrefix headerLine ''Content-Length:''
          then case Sscanf headerLine of None \<Rightarrow> contentLength | Some k \<Rightarrow> k
          else contentLength) rd1 = (r, rd')"
        by simp
      with "1.IH" [of headerLine "(None, rd1)" None rd1] r' False
      have "suffix (rest rd') (rest rd1)"
        by simp
      with s1 show ?thesis
        using suffix_order.trans by blast
    qed
  next
    case (Some x)
    with r "1.prems" s1
      readImageHeaders_loop_error_step [of rd headerLine x rd1 Sscanf contentLength]
    show ?thesis by simp
  qed
qed

section \<open>Configuration from the environment\<close>

lemma Atoi_empty: "Atoi [] = None"
  by (simp add: Atoi_def)

lemma ParseBool_empty: "ParseBool [] = None"
  by (simp add: ParseBool_def)

lemma loadEnvOverrides_eq:
  "loadEnvOverrides env options =
     \<lparr>URL = (if Getenv env ''MJPEG_URL'' \<noteq> [] then Getenv env ''MJPEG_URL'' else URL options),
      AutoStopTimer = (case Atoi (Getenv env ''MJPEG_AUTOSTOP_TIMER'') of
                         Some v \<Rightarrow> v | None \<Rightarrow> AutoStopTimer options),
      Resize = (case ParseBool (Getenv env ''MJPEG_RESIZE'') of
                  Some v \<Rightarrow> v | None \<Rightarrow> Resize options),
      Width = (case Atoi (Getenv env ''MJPEG_WIDTH'') of Some v \<Rightarrow> v | None \<Rightarrow> Width options),
      Height = (case Atoi (Getenv env ''MJPEG_HEIGHT'') of Some v \<Rightarrow> v | None \<Rightarrow> Height options),
      EnableLog = (case ParseBool (Getenv env ''MJPEG_ENABLE_LOG'') of
                     Some v \<Rightarrow> v | None \<Rightarrow> EnableLog options)\<rparr>"
proof -
  define o1 where "o1 = (if Getenv env ''MJPEG_URL'' \<noteq> [] then options\<lparr>URL := Getenv env ''MJPEG_URL''\<rparr> else options)"
  define o2 where "o2 = (if Getenv env ''MJPEG_AUTOSTOP_TIMER'' \<noteq> [] then
                    (case Atoi (Getenv env ''MJPEG_AUTOSTOP_TIMER'') of Some val \<Rightarrow> o1\<lparr>AutoStopTimer := val\<rparr>
                     | None \<Rightarrow> o1)
                  else o1)"
  define o3 where "o3 = (if Getenv env ''MJPEG_RESIZE'' \<noteq> [] then
                    (case ParseBool (Getenv env ''MJPEG_RESIZE'') of Some val \<Rightarrow> o2\<lparr>Resize := val\<rparr>
                     | None \<Rightarrow> o2)
                  else o2)"
  define o4 where "o4 = (if Getenv env ''MJPEG_WIDTH'' \<noteq> [] then
                    (case Atoi (Getenv env ''MJPEG_WIDTH'') of Some val \<Rightarrow> o3\<lparr>Width := val\<rparr> | None \<Rightarrow> o3)
                  else o3)"
  define o5 where "o5 = (if Getenv env ''MJPEG_HEIGHT'' \<noteq> [] then
                    (case Atoi (Getenv env ''MJPEG_HEIGHT'') of Some val \<Rightarrow> o4\<lparr>Height := val\<rparr> | None \<Rightarrow> o4)
                  else o4)"
  define o6 where "o6 = (if Getenv env ''MJPEG_ENABLE_LOG'' \<noteq> [] then
                    (case ParseBool (Getenv env ''MJPEG_ENABLE_LOG'') of Some val \<Rightarrow> o5\<lparr>EnableLog := val\<rparr>
                     | None \<Rightarrow> o5)
                  else o5)"
  have e: "loadEnvOverrides env options = o6"
    unfolding loadEnvOverrides_def Let_def o6_def o5_def o4_def o3_def o2_def o1_def ..
  have 1: "o1 = options\<lparr>URL := (if Getenv env ''MJPEG_URL'' \<noteq> [] then Getenv env ''MJPEG_URL'' else URL options)\<rparr>"
    by (simp add: o1_def)
  have 2: "o2 = o1\<lparr>AutoStopTimer := (case Atoi (Getenv env ''MJPEG_AUTOSTOP_TIMER'') of
                         Some v \<Rightarrow> v | None \<Rightarrow> AutoStopTimer o1)\<rparr>"
    by (simp add: o2_def Atoi_empty split: option.splits)
  have 3: "o3 = o2\<lparr>Resize := (case ParseBool (Getenv env ''MJPEG_RESIZE'') of
                  Some v \<Rightarrow> v | None \<Rightarrow> Resize o2)\<rparr>"
    by (simp add: o3_def ParseBool_empty split: option.splits)
  have 4: "o4 = o3\<lparr>Width := (case Atoi (Getenv env ''MJPEG_WIDTH'') of Some v \<Rightarrow> v | None \<Rightarrow> Width o3)\<rparr>"
    by (simp add: o4_def Atoi_empty split: option.splits)
  have 5: "o5 = o4\<lparr>Height := (case Atoi (Getenv env ''MJPEG_HEIGHT'') of Some v \<Rightarrow> v | None \<Rightarrow> Height o4)\<rparr>"
    by (simp add: o5_def Atoi_empty split: option.splits)
  have 6: "o6 = o5\<lparr>EnableLog := (case ParseBool (Getenv env ''MJPEG_ENABLE_LOG'') of
                     Some v \<Rightarrow> v | None \<Rightarrow> EnableLog o5)\<rparr>"
    by (simp add: o6_def ParseBool_empty split: option.splits)
  show ?thesis
    unfolding e 6 5 4 3 2 1 by (simp cong: option.case_cong)
qed

lemma opts_NewMjpeg:
  "opts (NewMjpeg dotenv env options) = loadEnvOverrides (godotenv_Load dotenv env) options"
  by (simp add: NewMjpeg_def Let_def init_def setStatusCode_def)

lemma logging_NewMjpeg:
  "logging (NewMjpeg dotenv env options) =
     EnableLog (loadEnvOverrides (godotenv_Load dotenv env) options)"
  by (simp add: NewMjpeg_def Let_def init_def setStatusCode_def)

text \<open>
  Claim C10. For every options value passed to \<^verbatim>\<open>NewMjpeg\<close>, with \<open>E\<close> the
  environment after \<^verbatim>\<open>godotenv.Load\<close>: each field whose variable
  (\<^verbatim>\<open>MJPEG_URL\<close>, \<^verbatim>\<open>MJPEG_AUTOSTOP_TIMER\<close>, \<^verbatim>\<open>MJPEG_RESIZE\<close>,
  \<^verbatim>\<open>MJPEG_WIDTH\<close>, \<^verbatim>\<open>MJPEG_HEIGHT\<close>, \<^verbatim>\<open>MJPEG_ENABLE_LOG\<close>) has a non-empty value
  that parses at the type of the field (any non-empty string for the URL,
  \<^verbatim>\<open>strconv.Atoi\<close> for the integers, \<^verbatim>\<open>strconv.ParseBool\<close> for the booleans) is
  replaced by that value in the options of the new client; each field whose
  variable is unset or empty, or does not parse, keeps the value of the caller. The
  logging flag of the client is the resulting \<^verbatim>\<open>EnableLog\<close>.
\<close>

theorem NewMjpeg_env_overrides:
  "(let E = Getenv (godotenv_Load dotenv env);
        r = opts (NewMjpeg dotenv env options :: 'img Mjpeg)
    in (E ''MJPEG_URL'' \<noteq> [] \<longrightarrow> URL r = E ''MJPEG_URL'')
     \<and> (E ''MJPEG_URL'' = [] \<longrightarrow> URL r = URL options)
     \<and> (E ''MJPEG_AUTOSTOP_TIMER'' \<noteq> [] \<and> Atoi (E ''MJPEG_AUTOSTOP_TIMER'') = Some t
            \<longrightarrow> AutoStopTimer r = t)
     \<and> (E ''MJPEG_AUTOSTOP_TIMER'' = [] \<or> Atoi (E ''MJPEG_AUTOSTOP_TIMER'') = None
            \<longrightarrow> AutoStopTimer r = AutoStopTimer options)
     \<and> (E ''MJPEG_RESIZE'' \<noteq> [] \<and> ParseBool (E ''MJPEG_RESIZE'') = Some rz
            \<longrightarrow> Resize r = rz)
     \<and> (E ''MJPEG_RESIZE'' = [] \<or> ParseBool (E ''MJPEG_RESIZE'') = None
            \<longrightarrow> Resize r = Resize options)
     \<and> (E ''MJPEG_WIDTH'' \<noteq> [] \<and> Atoi (E ''MJPEG_WIDTH'') = Some w \<longrightarrow> Width r = w)
     \<and> (E ''MJPEG_WIDTH'' = [] \<or> Atoi (E ''MJPEG_WIDTH'') = None
            \<longrightarrow> Width r = Width options)
     \<and> (E ''MJPEG_HEIGHT'' \<noteq> [] \<and> Atoi (E ''MJPEG_HEIGHT'') = Some h \<longrightarrow> Height r = h)
     \<and> (E ''MJPEG_HEIGHT'' = [] \<or> Atoi (E ''MJPEG_HEIGHT'') = None
            \<longrightarrow> Height r = Height options)
     \<and> (E ''MJPEG_ENABLE_LOG'' \<noteq> [] \<and> ParseBool (E ''MJPEG_ENABLE_LOG'') = Some lg
            \<longrightarrow> EnableLog r = lg)
     \<and> (E ''MJPEG_ENABLE_LOG'' = [] \<or> ParseBool (E ''MJPEG_ENABLE_LOG'') = None
            \<longrightarrow> EnableLog r = EnableLog options)
     \<and> logging (NewMjpeg dotenv env options :: 'img Mjpeg) = EnableLog r)"
  unfolding Let_def opts_NewMjpeg logging_NewMjpeg loadEnvOverrides_eq
  by (auto simp: Atoi_empty ParseBool_empty)

lemma Getenv_example:
  "Getenv (godotenv_Load example_dotenv example_env) k =
     (if k = ''MJPEG_URL'' then ''http://cam/stream''
      else if k = ''MJPEG_WIDTH'' then ''64O''
      else if k = ''MJPEG_ENABLE_LOG'' then ''0''
      else if k = ''MJPEG_AUTOSTOP_TIMER'' then ''30'' else [])"
  by (simp add: Getenv_def godotenv_Load_def example_env_def example_dotenv_def)

text \<open>
  At the example: the URL and the logging flag come from the environment, the
  timer from the \<^verbatim>\<open>.env\<close> file (whose URL does not override the one set); the
  width \<^verbatim>\<open>64O\<close> does not parse, the height is set but empty and the resize flag
  is unset, so these three keep what the caller gave.
\<close>

theorem NewMjpeg_env_overrides_witness:
  "Atoi ''30'' = Some 30 \<and> Atoi ''64O'' = None \<and> ParseBool ''0'' = Some False
   \<and> (let r = opts (NewMjpeg example_dotenv example_env example_opts :: nat Mjpeg)
      in URL r = ''http://cam/stream'' \<and> AutoStopTimer r = 30 \<and> Resize r = False
         \<and> Width r = 0 \<and> Height r = 0 \<and> EnableLog r = False)"
  using NewMjpeg_env_overrides [of example_dotenv example_env example_opts 30 True 0 0 False,
      where ?'img = nat]
  by (simp add: Let_def Getenv_example Atoi_def ParseBool_def isDigit_def digitsVal_def
      example_opts_def)

section \<open>The boundary token\<close>







section \<open>The watchdog timer\<close>

lemma Duration_seconds:
  assumes "- 9223372036 \<le> D" and "D \<le> 9223372036"
  shows "sint (Duration D * Second) = D * 1000000000"
proof -
  have "Duration D * Second = (word_of_int (D * 1000000000) :: 64 word)"
    by (simp add: Duration_def Second_def)
  moreover have "sint (word_of_int (D * 1000000000) :: 64 word)
      = signed_take_bit 63 (D * 1000000000)"
    using sint_sbintrunc' [of "D * 1000000000", where ?'a = 64] by simp
  moreover have "signed_take_bit 63 (D * 1000000000) = D * 1000000000"
    using assms by (intro signed_take_bit_int_eq_self) simp_all
  ultimately show ?thesis
    by simp
qed

text \<open>
  What a call \<^verbatim>\<open>ResetTimer(d)\<close> does in a state \<open>m\<close> of the struct, with \<open>D\<close>
  the duration \<open>d\<close> when \<open>d > 0\<close> and the configured \<^verbatim>\<open>AutoStopTimer\<close>
  otherwise: the timer the field \<^verbatim>\<open>timer\<close> refers to is stopped; a new timer is
  armed with \<^verbatim>\<open>time.Duration(D) * time.Second\<close> (which is \<open>D\<close> seconds as long
  as the product fits 64 bits) and the field refers to it; \<open>D\<close> is the configured
  duration afterwards. No other timer changes: a timer that is armed and that the
  field does not refer to stays armed.
\<close>

lemma ResetTimer_effect:
  "(let m' = ResetTimer d m; D = (if d > 0 then d else AutoStopTimer (opts m))
    in timer m' = Some (next_timer m)
     \<and> next_timer m' = next_timer m + 1
     \<and> armed m' (next_timer m)
     \<and> duration (timers m' (next_timer m)) = Duration D * Second
     \<and> (- 9223372036 \<le> D \<and> D \<le> 9223372036
          \<longrightarrow> sint (duration (timers m' (next_timer m))) = D * 1000000000)
     \<and> AutoStopTimer (opts m') = D
     \<and> (timer m = Some t \<and> t < next_timer m \<longrightarrow> \<not> armed m' t)
     \<and> (armed m' u \<longrightarrow> u = next_timer m \<or> (armed m u \<and> timer m \<noteq> Some u))
     \<and> ((\<forall>x. armed m x \<longrightarrow> timer m = Some x) \<longrightarrow> (\<forall>x. armed m' x \<longleftrightarrow> x = next_timer m))
     \<and> ResetTimer d (m\<lparr>chans := cs, ImageStream := img\<rparr>) = m'\<lparr>chans := cs, ImageStream := img\<rparr>
     \<and> (mjpeg s = m \<longrightarrow> fire Sscanf Decode (CallResetTimer d) s = Ret (s\<lparr>mjpeg := m'\<rparr>)
           \<and> decoders (s\<lparr>mjpeg := m'\<rparr>) = decoders s))"
proof -
  define D where "D = (if d > 0 then d else AutoStopTimer (opts m))"
  define m' where "m' = ResetTimer d m"
  have 1: "timer m' = Some (next_timer m)" "next_timer m' = next_timer m + 1"
    "AutoStopTimer (opts m') = D"
    by (simp_all add: m'_def D_def ResetTimer_eq)
  have 2: "duration (timers m' (next_timer m)) = Duration D * Second"
    "\<not> stopped (timers m' (next_timer m))"
    by (simp_all add: m'_def D_def ResetTimer_eq)
  have 3: "armed m' (next_timer m)"
    using 1 2 by (simp add: armed_def)
  have 4: "- 9223372036 \<le> D \<and> D \<le> 9223372036
      \<longrightarrow> sint (duration (timers m' (next_timer m))) = D * 1000000000"
    using 2 Duration_seconds [of D] by simp
  have 5: "timer m = Some t \<and> t < next_timer m \<longrightarrow> \<not> armed m' t"
    by (simp add: m'_def ResetTimer_eq armed_def)
  have 6: "armed m' x \<longrightarrow> x = next_timer m \<or> (armed m x \<and> timer m \<noteq> Some x)" for x
    by (cases "timer m") (auto simp: m'_def ResetTimer_eq armed_def split: if_splits)
  have 7: "(\<forall>x. armed m x \<longrightarrow> timer m = Some x) \<longrightarrow> (\<forall>x. armed m' x \<longleftrightarrow> x = next_timer m)"
    using 3 6 by blast
  have 8: "ResetTimer d (m\<lparr>chans := cs, ImageStream := img\<rparr>)
      = m'\<lparr>chans := cs, ImageStream := img\<rparr>"
    by (cases "timer m") (simp_all add: m'_def ResetTimer_eq)
  have 9: "mjpeg s = m \<longrightarrow> fire Sscanf Decode (CallResetTimer d) s = Ret (s\<lparr>mjpeg := m'\<rparr>)
           \<and> decoders (s\<lparr>mjpeg := m'\<rparr>) = decoders s"
    by (simp add: m'_def)
  show ?thesis
    unfolding Let_def D_def [symmetric] m'_def [symmetric]
    using 1 2 3 4 5 6 [of u] 7 8 9 by blast
qed

lemma example_reset_run_field:
  "(case example_reset_run of
      Ret s \<Rightarrow> timer (mjpeg s) = Some 2 \<and> armed (mjpeg s) 2
    | Blocks \<Rightarrow> False
    | Panic \<Rightarrow> False)"
  by code_simp

lemma example_reset_run_orphan:
  "(case example_reset_run of
      Ret s \<Rightarrow> armed (mjpeg s) 0 \<and> \<not> armed (mjpeg s) 1
    | Blocks \<Rightarrow> False
    | Panic \<Rightarrow> False)"
  by code_simp

lemma example_reset_run_durations:
  "(case example_reset_run of
      Ret s \<Rightarrow> sint (duration (timers (mjpeg s) 0)) = 5000000000
        \<and> sint (duration (timers (mjpeg s) 2)) = 20000000000
    | Blocks \<Rightarrow> False
    | Panic \<Rightarrow> False)"
  by code_simp

text \<open>
  Claim C7 says that every call \<^verbatim>\<open>ResetTimer(d)\<close> cancels any outstanding
  watchdog timer and arms a new one, whether or not a frame has been delivered.
  In the run of the example session (configured for 15 seconds) the first call,
  with 5 seconds, comes before the stream is started and arms timer 0; the first
  delivered frame arms timer 1 and stores it in the field without stopping timer
  0; the second call, with 20 seconds, stops timer 1 and arms timer 2. Timer 0 is
  still armed after the second call, with its 5 seconds, beside timer 2.
\<close>

theorem ResetTimer_leaves_timer_armed:
  "\<exists>s. run example_Sscanf example_Decode
          [CallResetTimer 5, CallStart, FetcherRecv 0 0 example_response, DecoderDefault 0,
           CallResetTimer 20]
          (new_session example_session) = Ret s
       \<and> timer (mjpeg s) = Some 2
       \<and> armed (mjpeg s) 2
       \<and> sint (duration (timers (mjpeg s) 2)) = 20000000000
       \<and> \<not> armed (mjpeg s) 1
       \<and> armed (mjpeg s) 0
       \<and> sint (duration (timers (mjpeg s) 0)) = 5000000000"
proof (cases example_reset_run)
  case (Ret s)
  have "timer (mjpeg s) = Some 2 \<and> armed (mjpeg s) 2"
    using example_reset_run_field unfolding Ret by simp
  moreover have "armed (mjpeg s) 0 \<and> \<not> armed (mjpeg s) 1"
    using example_reset_run_orphan unfolding Ret by simp
  moreover have "sint (duration (timers (mjpeg s) 0)) = 5000000000
      \<and> sint (duration (timers (mjpeg s) 2)) = 20000000000"
    using example_reset_run_durations unfolding Ret by simp
  ultimately show ?thesis
    using Ret unfolding example_reset_run_def example_reset_events_def by blast
next
  case Blocks
  with example_reset_run_field show ?thesis
    unfolding Blocks by simp
next
  case Panic
  with example_reset_run_field show ?thesis
    unfolding Panic by simp
qed

section \<open>The frame pipeline\<close>

lemma processAndSendImage_not_Blocks:
  "processAndSendImage Decode jpegData started m \<noteq> Blocks"
  by (simp add: processAndSendImage_def Let_def split: option.split go.split)

lemma decodeStream_part_not_Blocks: "decodeStream_part Sscanf Decode v m \<noteq> Blocks"
proof
  assume "decodeStream_part Sscanf Decode v m = Blocks"
  then show False
    by (auto simp: decodeStream_part_def processAndSendImage_not_Blocks
        split: option.splits prod.splits sum.splits if_splits go.splits)
qed

lemma decodeStream_default_not_Blocks: "decodeStream_default Sscanf Decode v m \<noteq> Blocks"
  by (simp add: decodeStream_default_def decodeStream_part_not_Blocks)

lemma processAndSendImage_full:
  assumes "ImageStream m = Some c" and "\<not> closed (chans m c)"
    and "cap (chans m c) \<le> length (buf (chans m c))"
  shows "processAndSendImage Decode jpegData started m = Ret (started, m)"
proof -
  have "chan_send (chans m c) img = Blocks" for img
    using assms by (simp add: chan_send_def)
  then show ?thesis
    using assms(1) by (simp add: processAndSendImage_def split: option.split)
qed

lemma processAndSendImage_keeps:
  assumes "processAndSendImage Decode jpegData started m = Ret (started', m')"
    and "ImageStream m = Some c"
  shows "ImageStream m' = Some c \<and> prefix (buf (chans m c)) (buf (chans m' c))"
proof -
  from processAndSendImage_cases [OF assms(1)] show ?thesis
  proof
    assume "started' = started \<and> m' = m"
    with assms(2) show ?thesis by simp
  next
    assume "\<exists>c img. ImageStream m = Some c \<and> Decode jpegData = Some img \<and> jpegData \<noteq> []
          \<and> \<not> closed (chans m c) \<and> length (buf (chans m c)) < cap (chans m c)
          \<and> (let m1 = m\<lparr>chans := (chans m)(c := (chans m c)\<lparr>buf := buf (chans m c) @ [img]\<rparr>)\<rparr>
             in if \<not> started \<and> AutoStopTimer (opts m) > 0
                then started' \<and> m' = AfterFunc (Duration (AutoStopTimer (opts m)) * Second) m1
                else started' = started \<and> m' = m1)"
    then obtain img where
      "m' = AfterFunc (Duration (AutoStopTimer (opts m)) * Second)
              (m\<lparr>chans := (chans m)(c := (chans m c)\<lparr>buf := buf (chans m c) @ [img]\<rparr>)\<rparr>)
       \<or> m' = m\<lparr>chans := (chans m)(c := (chans m c)\<lparr>buf := buf (chans m c) @ [img]\<rparr>)\<rparr>"
      using assms(2) by (auto simp: Let_def split: if_splits)
    then show ?thesis
      using assms(2) by (auto simp: AfterFunc_def)
  qed
qed

lemma example_run_reader:
  "(case example_run of
      Ret s \<Rightarrow> rest (reader (vars (decoders s ! 0))) = [] \<and> ImageStream (mjpeg s) = Some 0
    | Blocks \<Rightarrow> False
    | Panic \<Rightarrow> False)"
  by code_simp

lemma example_run_channel:
  "(case example_run of
      Ret s \<Rightarrow> buf (chans (mjpeg s) 0) = [''J1''] \<and> \<not> closed (chans (mjpeg s) 0)
    | Blocks \<Rightarrow> False
    | Panic \<Rightarrow> False)"
  by code_simp

lemma example_run_Ret:
  "\<exists>s. example_run = Ret s \<and> ImageStream (mjpeg s) = Some 0
     \<and> rest (reader (vars (decoders s ! 0))) = []
     \<and> buf (chans (mjpeg s) 0) = [''J1''] \<and> \<not> closed (chans (mjpeg s) 0)"
proof (cases example_run)
  case (Ret s)
  have "rest (reader (vars (decoders s ! 0))) = [] \<and> ImageStream (mjpeg s) = Some 0"
    using example_run_reader unfolding Ret by simp
  moreover have "buf (chans (mjpeg s) 0) = [''J1''] \<and> \<not> closed (chans (mjpeg s) 0)"
    using example_run_channel unfolding Ret by simp
  ultimately show ?thesis
    using Ret by blast
next
  case Blocks
  with example_run_reader show ?thesis
    unfolding Blocks by simp
next
  case Panic
  with example_run_reader show ?thesis
    unfolding Panic by simp
qed

text \<open>
  Against claim C1 as stated (a newly decoded frame supersedes an undelivered
  one): in the run of the example, after both parts of the body have been read and
  decoded, the channel the consumer holds still has the first frame, not the
  second.
\<close>

theorem two_frames_counterexample:
  "\<exists>s. run example_Sscanf example_Decode
          [CallStart, FetcherRecv 0 0 example_response, DecoderDefault 0, DecoderDefault 0]
          (new_session example_session) = Ret s
       \<and> ImageStream (mjpeg s) = Some 0
       \<and> rest (reader (vars (decoders s ! 0))) = []
       \<and> buf (chans (mjpeg s) 0) = [''J1'']
       \<and> buf (chans (mjpeg s) 0) \<noteq> [''J2'']"
proof -
  obtain s where "example_run = Ret s" and "ImageStream (mjpeg s) = Some 0"
    and "rest (reader (vars (decoders s ! 0))) = []" and b: "buf (chans (mjpeg s) 0) = [''J1'']"
    using example_run_Ret by blast
  moreover from b have "buf (chans (mjpeg s) 0) \<noteq> [''J2'']"
    by simp
  ultimately show ?thesis
    unfolding example_run_def example_events_def by blast
qed

text \<open>
  Claim C1, amended. In every state a session reaches from \<^verbatim>\<open>NewMjpeg\<close> by
  any steps of the client, the goroutines and the consumer, the image channel of
  the struct has capacity 1 and holds at most one frame. Handing over a frame
  never blocks: neither \<^verbatim>\<open>processAndSendImage\<close> nor a cycle of the decode loop
  has the outcome of blocking, whatever the consumer does. When the channel is
  open and full, the new frame is dropped and everything stays as it was: the
  undelivered frame is kept, it is not replaced. A frame that is queued is never
  taken out by the producer: the old queue is a prefix of the new one.
\<close>

theorem frame_pipeline_single_slot:
  "(run Sscanf Decode evs (new_session (NewMjpeg dotenv env options)) = Ret s
      \<and> ImageStream (mjpeg s) = Some c
      \<longrightarrow> cap (chans (mjpeg s) c) = 1 \<and> length (buf (chans (mjpeg s) c)) \<le> 1)
   \<and> processAndSendImage Decode jpegData started m \<noteq> Blocks
   \<and> decodeStream_default Sscanf Decode v m \<noteq> Blocks
   \<and> (ImageStream m = Some c' \<and> \<not> closed (chans m c')
        \<and> cap (chans m c') \<le> length (buf (chans m c'))
      \<longrightarrow> processAndSendImage Decode jpegData started m = Ret (started, m))
   \<and> (processAndSendImage Decode jpegData started m = Ret (started', m')
        \<and> ImageStream m = Some c'
      \<longrightarrow> ImageStream m' = Some c' \<and> prefix (buf (chans m c')) (buf (chans m' c')))"
proof -
  have "cap (chans (mjpeg s) c) = 1 \<and> length (buf (chans (mjpeg s) c)) \<le> 1"
    if r: "run Sscanf Decode evs (new_session (NewMjpeg dotenv env options)) = Ret s"
      and c: "ImageStream (mjpeg s) = Some c"
  proof -
    have "pipeline_inv (mjpeg (new_session (NewMjpeg dotenv env options)))"
      by (simp add: new_session_def pipeline_inv_NewMjpeg)
    with r have "pipeline_inv (mjpeg s)"
      by (rule pipeline_inv_run)
    with c show ?thesis
      by (simp add: pipeline_inv_def)
  qed
  then show ?thesis
    using processAndSendImage_not_Blocks [of Decode jpegData started m]
      decodeStream_default_not_Blocks [of Sscanf Decode v m]
      processAndSendImage_full [of m c' Decode jpegData started]
      processAndSendImage_keeps [of Decode jpegData started m started' m' c']
    by blast
qed

text \<open>
  At the run of the example: the channel holds one frame, it is open and full,
  and a third frame handed over in this state is dropped.
\<close>

theorem frame_pipeline_single_slot_witness:
  "\<exists>s. run example_Sscanf example_Decode example_events
          (new_session (NewMjpeg [] Map.empty example_opts)) = Ret s
       \<and> ImageStream (mjpeg s) = Some 0
       \<and> \<not> closed (chans (mjpeg s) 0)
       \<and> cap (chans (mjpeg s) 0) = 1
       \<and> length (buf (chans (mjpeg s) 0)) = 1
       \<and> processAndSendImage example_Decode ''J3'' True (mjpeg s) = Ret (True, mjpeg s)"
proof -
  obtain s where s: "example_run = Ret s" and i: "ImageStream (mjpeg s) = Some 0"
    and b: "buf (chans (mjpeg s) 0) = [''J1'']" and o: "\<not> closed (chans (mjpeg s) 0)"
    using example_run_Ret by blast
  note r = s [unfolded example_run_def example_session_def]
  have c: "cap (chans (mjpeg s) 0) = 1"
    using frame_pipeline_single_slot [where Sscanf = example_Sscanf and Decode = example_Decode
        and evs = example_events and dotenv = "[]" and env = Map.empty
        and options = example_opts and s = s and c = 0, THEN conjunct1] r i
    by blast
  have l: "length (buf (chans (mjpeg s) 0)) = 1"
    using b by simp
  have "processAndSendImage example_Decode ''J3'' True (mjpeg s) = Ret (True, mjpeg s)"
    using frame_pipeline_single_slot [where Decode = example_Decode and jpegData = "''J3''"
        and started = True and m = "mjpeg s" and c' = 0,
        THEN conjunct2, THEN conjunct2, THEN conjunct2, THEN conjunct1] i o c l
    by simp
  with r i o c l show ?thesis
    by blast
qed

section \<open>A payload that is not an image\<close>

lemma processAndSendImage_rejected:
  "Decode jpegData = None \<Longrightarrow> processAndSendImage Decode jpegData started m = Ret (started, m)"
  by (simp add: processAndSendImage_def)

lemma decodeStream_default_rejected:
  assumes "statusCode m \<noteq> StatusPaused"
    and "ReadString (reader v) = (line, None, rdl)"
    and "Contains line (boundary v)"
    and "readImageHeaders Sscanf rdl = (Inr n, rdh)"
    and "0 \<le> n" and "n \<le> maxAlloc"
    and "ReadFull rdh (nat n) = (jpegData, None, rdp)"
    and "Decode jpegData = None"
  shows "decodeStream_default Sscanf Decode v m = Ret (v\<lparr>reader := rdp\<rparr>, m)"
  using assms
  by (simp add: decodeStream_default_def decodeStream_part_def processAndSendImage_rejected)

text \<open>
  Claim C5. For every part whose payload \<^verbatim>\<open>jpeg.Decode\<close> rejects:
  \<^verbatim>\<open>processAndSendImage\<close> returns with the struct and the flag
  \<^verbatim>\<open>timerStarted\<close> as they were, so no frame is put into the image channel,
  no timer is armed and the status does not change. For the cycle of the decode
  loop that reads such a part (the status is not \<^verbatim>\<open>StatusPaused\<close>, the line
  read contains the boundary, the headers end with a blank line and give a length
  that can be allocated, and the payload is there in full) the struct is unchanged
  as well, and the reader stands right behind the payload, where the next part
  begins. As a step of the session: the struct is unchanged, and the decode
  goroutine is still running, with its reader behind the payload.
\<close>

theorem decode_failure_is_skipped:
  "(Decode jpegData = None
      \<longrightarrow> processAndSendImage Decode jpegData started m = Ret (started, m))
   \<and> (statusCode m \<noteq> StatusPaused
        \<and> ReadString (reader v) = (line, None, rdl)
        \<and> Contains line (boundary v)
        \<and> readImageHeaders Sscanf rdl = (Inr n, rdh)
        \<and> 0 \<le> n \<and> n \<le> maxAlloc
        \<and> ReadFull rdh (nat n) = (jpegData, None, rdp)
        \<and> Decode jpegData = None
      \<longrightarrow> decodeStream_default Sscanf Decode v m = Ret (v\<lparr>reader := rdp\<rparr>, m)
          \<and> rest rdh = jpegData @ rest rdp
          \<and> (i < length (decoders s) \<and> running (decoders s ! i)
               \<and> \<not> closed (stopDecodeCh (mjpeg s)) \<and> senders s = []
               \<and> vars (decoders s ! i) = v \<and> mjpeg s = m
             \<longrightarrow> fire Sscanf Decode (DecoderDefault i) s
                   = Ret (s\<lparr>decoders :=
                            (decoders s)[i := (decoders s ! i)\<lparr>vars := v\<lparr>reader := rdp\<rparr>\<rparr>]\<rparr>)))"
proof -
  have "fire Sscanf Decode (DecoderDefault i) s
      = Ret (s\<lparr>decoders := (decoders s)[i := (decoders s ! i)\<lparr>vars := v\<lparr>reader := rdp\<rparr>\<rparr>]\<rparr>)"
    if "decodeStream_default Sscanf Decode v m = Ret (v\<lparr>reader := rdp\<rparr>, m)"
      and "i < length (decoders s)" and "running (decoders s ! i)"
      and "\<not> closed (stopDecodeCh (mjpeg s))" and "senders s = []"
      and "vars (decoders s ! i) = v" and "mjpeg s = m"
    using that by simp
  then show ?thesis
    using processAndSendImage_rejected [of Decode jpegData started m]
      decodeStream_default_rejected [of m v line rdl Sscanf n rdh jpegData rdp Decode]
      ReadFull_consumes [of rdh "nat n" jpegData None rdp]
    by blast
qed

lemma example_bad_reads:
  "ReadString (reader example_bad_vars) = (''--frame'' @ CRLF, None, example_bad_rd1)"
  "Contains (''--frame'' @ CRLF) (boundary example_bad_vars)"
  "readImageHeaders example_Sscanf example_bad_rd1 = (Inr 2, example_bad_rd2)"
  "ReadFull example_bad_rd2 (nat 2) = (''XX'', None, example_bad_rd3)"
  "example_Decode ''XX'' = None"
  "statusCode example_playing = StatusPlaying"
  by code_simp+

lemma example_bad_system_enabled:
  "0 < length (decoders example_bad_system)"
  "running (decoders example_bad_system ! 0)"
  "\<not> closed (stopDecodeCh (mjpeg example_bad_system))"
  "senders example_bad_system = []"
  "vars (decoders example_bad_system ! 0) = example_bad_vars"
  by code_simp+

lemma example_bad_run_result:
  "(case example_bad_run of
      Ret s \<Rightarrow> statusCode (mjpeg s) = StatusPlaying \<and> buf (chans (mjpeg s) 0) = [''J2'']
    | Blocks \<Rightarrow> False
    | Panic \<Rightarrow> False)"
  by code_simp

text \<open>
  At a body whose first payload, \<^verbatim>\<open>XX\<close>, is rejected by the example decoder:
  the cycle leaves the struct, in the status \<^verbatim>\<open>StatusPlaying\<close>, as it is and
  moves the reader behind the payload; in the run of a session with this body, the
  frame of the second part is the one in the channel after two cycles.
\<close>

theorem decode_failure_is_skipped_witness:
  "example_Decode ''XX'' = None
   \<and> statusCode example_playing = StatusPlaying
   \<and> processAndSendImage example_Decode ''XX'' False example_playing
       = Ret (False, example_playing)
   \<and> decodeStream_default example_Sscanf example_Decode example_bad_vars example_playing
       = Ret (example_bad_vars\<lparr>reader := example_bad_rd3\<rparr>, example_playing)
   \<and> fire example_Sscanf example_Decode (DecoderDefault 0) example_bad_system
       = Ret (example_bad_system\<lparr>decoders :=
                [\<lparr>vars = example_bad_vars\<lparr>reader := example_bad_rd3\<rparr>, running = True\<rparr>]\<rparr>)
   \<and> (case example_bad_run of
         Ret s \<Rightarrow> statusCode (mjpeg s) = StatusPlaying \<and> buf (chans (mjpeg s) 0) = [''J2'']
       | Blocks \<Rightarrow> False
       | Panic \<Rightarrow> False)"
proof -
  have m: "mjpeg example_bad_system = example_playing"
    by (simp add: example_bad_system_def new_session_def)
  have d: "decoders example_bad_system = [\<lparr>vars = example_bad_vars, running = True\<rparr>]"
    by (simp add: example_bad_system_def)
  have a: "maxAlloc \<ge> 2"
    by (simp add: maxAlloc_def)
  note t = decode_failure_is_skipped [where Decode = example_Decode and jpegData = "''XX''"
      and started = False and m = example_playing and v = example_bad_vars
      and line = "''--frame'' @ CRLF" and rdl = example_bad_rd1 and Sscanf = example_Sscanf
      and n = 2 and rdh = example_bad_rd2 and rdp = example_bad_rd3 and i = 0
      and s = example_bad_system]
  have 1: "processAndSendImage example_Decode ''XX'' False example_playing
       = Ret (False, example_playing)"
    using t example_bad_reads(5) by blast
  have 2: "decodeStream_default example_Sscanf example_Decode example_bad_vars example_playing
       = Ret (example_bad_vars\<lparr>reader := example_bad_rd3\<rparr>, example_playing)"
    using t example_bad_reads a by simp
  have 3: "fire example_Sscanf example_Decode (DecoderDefault 0) example_bad_system
       = Ret (example_bad_system\<lparr>decoders :=
                (decoders example_bad_system)
                  [0 := (decoders example_bad_system ! 0)
                     \<lparr>vars := example_bad_vars\<lparr>reader := example_bad_rd3\<rparr>\<rparr>]\<rparr>)"
    using t example_bad_reads example_bad_system_enabled a m by simp
  from 3 have 4: "fire example_Sscanf example_Decode (DecoderDefault 0) example_bad_system
       = Ret (example_bad_system\<lparr>decoders :=
                [\<lparr>vars = example_bad_vars\<lparr>reader := example_bad_rd3\<rparr>, running = True\<rparr>]\<rparr>)"
    unfolding d by simp
  from 1 2 4 example_bad_reads(5,6) example_bad_run_result show ?thesis
    by blast
qed

section \<open>A header block that does not end\<close>



lemma setStatusCode_fields [simp]:
  "statusCode (setStatusCode st m) = st"
  "chans (setStatusCode st m) = chans m"
  "ImageStream (setStatusCode st m) = ImageStream m"
  "next_chan (setStatusCode st m) = next_chan m"
  "timers (setStatusCode st m) = timers m"
  "next_timer (setStatusCode st m) = next_timer m"
  "timer (setStatusCode st m) = timer m"
  "opts (setStatusCode st m) = opts m"
  "wg (setStatusCode st m) = wg m"
  "stopDecodeCh (setStatusCode st m) = stopDecodeCh m"
  by (simp_all add: setStatusCode_def Let_def)


















end
